theory Spec2Isabelle
  imports Complex_Main
begin

section \<open>The resource-servers endpoints of the management API\<close>

text \<open>
  A shallow embedding of \<^verbatim>\<open>auth0/management/resource_servers.py\<close>: the class
  \<^verbatim>\<open>ResourceServers\<close>, its constructor, the private helper \<^verbatim>\<open>_url\<close> and the five
  endpoint methods. The class builds a URL, hands one request to a \<^verbatim>\<open>RestClient\<close> and
  returns what the client returns. The \<^verbatim>\<open>RestClient\<close> class lives in another module of
  the package; here it is a parameter of every definition that uses it.
\<close>

subsection \<open>Values that cross the interface\<close>

text \<open>The four verb methods of the REST client that the class calls.\<close>

datatype verb = GET | POST | DELETE | PATCH

text \<open>
  The values of the \<^verbatim>\<open>params\<close> dictionary are Python objects of different types
  (\<^verbatim>\<open>None\<close>, an \<^verbatim>\<open>int\<close>, a \<^verbatim>\<open>str\<close>); \<^verbatim>\<open>bool\<close> is part of the universe so that
  a string can be told from a boolean.
\<close>

datatype py_value = PyNone | PyInt int | PyStr string | PyBool bool

text \<open>\<^verbatim>\<open>TimeoutType\<close>: a float, or a tuple of connect and read timeout.\<close>

datatype timeout_type = Seconds real | ConnectRead real real

text \<open>
  One call of a verb method. \<^verbatim>\<open>client.get(u, params=p)\<close> is the call with verb
  \<open>GET\<close>, URL \<open>u\<close>, \<open>call_params = Some p\<close> and \<open>call_data = None\<close>; a keyword
  argument that the source does not pass is \<open>None\<close>. A dictionary of query parameters
  is an association list in the order of the dictionary display; the body of a request
  is opaque (\<open>'b\<close>).
\<close>

record 'b rest_call =
  call_verb :: verb
  call_url :: string
  call_params :: "(string \<times> py_value) list option"
  call_data :: "'b option"

text \<open>
  The REST client: given the client object \<open>'c\<close>, a call and the state of everything
  outside this class (\<open>'w\<close>: the network, the remote service, the clock, the client's own
  counters), a verb method either raises (\<open>Inl\<close>) or returns a parsed response
  (\<open>Inr\<close>), and leaves a new outside state.
\<close>

type_synonym ('c, 'b, 'e, 'r, 'w) rest =
  "'c \<Rightarrow> 'b rest_call \<Rightarrow> 'w \<Rightarrow> ('e + 'r) \<times> 'w"

text \<open>The constructor \<^verbatim>\<open>RestClient(jwt=, telemetry=, timeout=, options=)\<close>; it may raise.\<close>

type_synonym ('o, 'e, 'c) rest_ctor =
  "string \<Rightarrow> bool \<Rightarrow> timeout_type \<Rightarrow> 'o option \<Rightarrow> 'e + 'c"

subsection \<open>The instance and its constructor\<close>

record 'c resource_servers =
  domain :: string
  protocol :: string
  client :: 'c

text \<open>
  \<^verbatim>\<open>__init__(self, domain, token, telemetry=True, timeout=5.0, protocol="https",
  rest_options=None)\<close>. An optional argument that the caller leaves out is \<open>None\<close> and
  takes the default of the signature.
\<close>

definition init ::
  "('o, 'e, 'c) rest_ctor \<Rightarrow> string \<Rightarrow> string \<Rightarrow> bool option \<Rightarrow> timeout_type option \<Rightarrow>
   string option \<Rightarrow> 'o option \<Rightarrow> 'e + 'c resource_servers" where
  "init RestClient domain_arg token telemetry timeout protocol_arg rest_options =
     (case RestClient token
             (case telemetry of None \<Rightarrow> True | Some t \<Rightarrow> t)
             (case timeout of None \<Rightarrow> Seconds 5 | Some t \<Rightarrow> t)
             rest_options of
        Inl e \<Rightarrow> Inl e
      | Inr c \<Rightarrow>
          Inr \<lparr>domain = domain_arg,
               protocol = (case protocol_arg of None \<Rightarrow> ''https'' | Some p \<Rightarrow> p),
               client = c\<rparr>)"

subsection \<open>URL construction\<close>

text \<open>
  \<^verbatim>\<open>_url(self, id=None)\<close>: two f-strings; formatting a \<^verbatim>\<open>str\<close> into an f-string
  inserts it as it is.
\<close>

definition url' :: "'c resource_servers \<Rightarrow> string option \<Rightarrow> string" where
  "url' self id_arg =
     (let url = protocol self @ ''://'' @ domain self @ ''/api/v2/resource-servers''
      in case id_arg of
           Some i \<Rightarrow> url @ ''/'' @ i
         | None \<Rightarrow> url)"

subsection \<open>Serialising \<^verbatim>\<open>include_totals\<close>\<close>

text \<open>\<^verbatim>\<open>str(b)\<close> for a \<^verbatim>\<open>bool\<close>.\<close>

definition str_bool :: "bool \<Rightarrow> string" where
  "str_bool b = (if b then ''True'' else ''False'')"

text \<open>\<^verbatim>\<open>str.lower\<close> on ASCII text: the letters A to Z move to a to z.\<close>

definition lower_char :: "char \<Rightarrow> char" where
  "lower_char c =
     (let n = (of_char c :: nat) in if 65 \<le> n \<and> n \<le> 90 then char_of (n + 32) else c)"

definition lower :: "string \<Rightarrow> string" where
  "lower s = map lower_char s"

text \<open>An \<^verbatim>\<open>int | None\<close> argument stored as a dictionary value.\<close>

definition py_int_opt :: "int option \<Rightarrow> py_value" where
  "py_int_opt x = (case x of None \<Rightarrow> PyNone | Some n \<Rightarrow> PyInt n)"

subsection \<open>The five operations\<close>

text \<open>
  A method receives \<^verbatim>\<open>self\<close> and may assign to its fields, so each operation takes
  the instance and returns it next to the result; the outside state is threaded through
  the one call of the REST client. An exception of the verb method is the result
  \<open>Inl\<close>: no method catches an exception.
\<close>

definition create ::
  "('c, 'b, 'e, 'r, 'w) rest \<Rightarrow> 'c resource_servers \<Rightarrow> 'b \<Rightarrow> 'w \<Rightarrow>
   ('e + 'r) \<times> 'c resource_servers \<times> 'w" where
  "create rest self body w =
     (case rest (client self)
             \<lparr>call_verb = POST, call_url = url' self None,
              call_params = None, call_data = Some body\<rparr> w of
        (res, w') \<Rightarrow> (res, self, w'))"

text \<open>\<^verbatim>\<open>get_all(self, page=None, per_page=None, include_totals=False)\<close>.\<close>

definition get_all ::
  "('c, 'b, 'e, 'r, 'w) rest \<Rightarrow> 'c resource_servers \<Rightarrow> int option \<Rightarrow> int option \<Rightarrow>
   bool option \<Rightarrow> 'w \<Rightarrow> ('e + 'r) \<times> 'c resource_servers \<times> 'w" where
  "get_all rest self page per_page include_totals w =
     (let params =
            [(''page'', py_int_opt page),
             (''per_page'', py_int_opt per_page),
             (''include_totals'',
                PyStr (lower (str_bool (case include_totals of None \<Rightarrow> False | Some b \<Rightarrow> b))))]
      in case rest (client self)
                \<lparr>call_verb = GET, call_url = url' self None,
                 call_params = Some params, call_data = None\<rparr> w of
           (res, w') \<Rightarrow> (res, self, w'))"

definition get ::
  "('c, 'b, 'e, 'r, 'w) rest \<Rightarrow> 'c resource_servers \<Rightarrow> string \<Rightarrow> 'w \<Rightarrow>
   ('e + 'r) \<times> 'c resource_servers \<times> 'w" where
  "get rest self i w =
     (case rest (client self)
             \<lparr>call_verb = GET, call_url = url' self (Some i),
              call_params = None, call_data = None\<rparr> w of
        (res, w') \<Rightarrow> (res, self, w'))"

definition delete ::
  "('c, 'b, 'e, 'r, 'w) rest \<Rightarrow> 'c resource_servers \<Rightarrow> string \<Rightarrow> 'w \<Rightarrow>
   ('e + 'r) \<times> 'c resource_servers \<times> 'w" where
  "delete rest self i w =
     (case rest (client self)
             \<lparr>call_verb = DELETE, call_url = url' self (Some i),
              call_params = None, call_data = None\<rparr> w of
        (res, w') \<Rightarrow> (res, self, w'))"

definition update ::
  "('c, 'b, 'e, 'r, 'w) rest \<Rightarrow> 'c resource_servers \<Rightarrow> string \<Rightarrow> 'b \<Rightarrow> 'w \<Rightarrow>
   ('e + 'r) \<times> 'c resource_servers \<times> 'w" where
  "update rest self i body w =
     (case rest (client self)
             \<lparr>call_verb = PATCH, call_url = url' self (Some i),
              call_params = None, call_data = Some body\<rparr> w of
        (res, w') \<Rightarrow> (res, self, w'))"

subsection \<open>Callers\<close>

text \<open>A call of one of the five methods, with its arguments.\<close>

datatype 'b operation =
    Create 'b
  | GetAll "int option" "int option" "bool option"
  | Get string
  | Delete string
  | Update string 'b

fun run_op ::
  "('c, 'b, 'e, 'r, 'w) rest \<Rightarrow> 'c resource_servers \<Rightarrow> 'b operation \<Rightarrow> 'w \<Rightarrow>
   ('e + 'r) \<times> 'c resource_servers \<times> 'w" where
  "run_op rest self (Create body) w = create rest self body w"
| "run_op rest self (GetAll page per_page include_totals) w =
     get_all rest self page per_page include_totals w"
| "run_op rest self (Get i) w = get rest self i w"
| "run_op rest self (Delete i) w = delete rest self i w"
| "run_op rest self (Update i body) w = update rest self i body w"

text \<open>
  A caller that makes a sequence of calls on one instance and goes on after a failure
  (it catches the exception); the results are collected in order.
\<close>

fun run_ops ::
  "('c, 'b, 'e, 'r, 'w) rest \<Rightarrow> 'c resource_servers \<Rightarrow> 'b operation list \<Rightarrow> 'w \<Rightarrow>
   ('e + 'r) list \<times> 'c resource_servers \<times> 'w" where
  "run_ops rest self [] w = ([], self, w)"
| "run_ops rest self (x # xs) w =
     (case run_op rest self x w of
        (res, self', w') \<Rightarrow>
          (case run_ops rest self' xs w' of
             (rs, self'', w'') \<Rightarrow> (res # rs, self'', w'')))"

text \<open>
  A recording REST client: it behaves as \<open>rest\<close> and appends every call it receives,
  with the client object it was made on, to a log kept in the outside state.
\<close>

definition recording ::
  "('c, 'b, 'e, 'r, 'w) rest \<Rightarrow> ('c, 'b, 'e, 'r, 'w \<times> ('c \<times> 'b rest_call) list) rest" where
  "recording rest c call = (\<lambda>(w, calls).
     case rest c call w of (res, w') \<Rightarrow> (res, (w', calls @ [(c, call)])))"

text \<open>The calls that an operation run on a recording client has left in the log.\<close>

definition sent :: "'x \<times> 'y \<times> 'w \<times> ('c \<times> 'b rest_call) list \<Rightarrow> 'b rest_call list" where
  "sent out = map snd (snd (snd (snd out)))"

text \<open>
  Several instances in one program. Objects live in a store and are named by their
  address; a step either constructs an instance (a failed construction allocates
  nothing) or calls a method on the object at an address. The outside state is shared by
  all of them. An address that names no object cannot occur in Python; such a step
  does nothing.
\<close>

record ('c, 'w) system =
  objects :: "'c resource_servers list"
  world :: 'w

datatype ('o, 'b) step =
    Construct string string "bool option" "timeout_type option" "string option" "'o option"
  | Call nat "'b operation"

fun run_step ::
  "('o, 'e, 'c) rest_ctor \<Rightarrow> ('c, 'b, 'e, 'r, 'w) rest \<Rightarrow> ('o, 'b) step \<Rightarrow>
   ('c, 'w) system \<Rightarrow> ('c, 'w) system" where
  "run_step RestClient rest (Construct d token telemetry timeout p rest_options) s =
     (case init RestClient d token telemetry timeout p rest_options of
        Inl e \<Rightarrow> s
      | Inr obj \<Rightarrow> s\<lparr>objects := objects s @ [obj]\<rparr>)"
| "run_step RestClient rest (Call a x) s =
     (if a < length (objects s)
      then (case run_op rest (objects s ! a) x (world s) of
              (res, self', w') \<Rightarrow> \<lparr>objects = (objects s)[a := self'], world = w'\<rparr>)
      else s)"

fun run_steps ::
  "('o, 'e, 'c) rest_ctor \<Rightarrow> ('c, 'b, 'e, 'r, 'w) rest \<Rightarrow> ('o, 'b) step list \<Rightarrow>
   ('c, 'w) system \<Rightarrow> ('c, 'w) system" where
  "run_steps RestClient rest [] s = s"
| "run_steps RestClient rest (x # xs) s = run_steps RestClient rest xs (run_step RestClient rest x s)"

subsection \<open>Test doubles\<close>

text \<open>
  A constructor that never raises and makes a client object out of the token and the
  telemetry flag, and a verb method that answers 404 for the id \<^verbatim>\<open>missing-id\<close> on
  \<^verbatim>\<open>t.auth0.com\<close>, echoes the URL otherwise, and counts the requests it has served.
\<close>

definition stub_ctor :: "(unit, nat, string \<times> bool) rest_ctor" where
  "stub_ctor token telemetry timeout rest_options = Inr (token, telemetry)"

definition stub_rest :: "(string \<times> bool, string, nat, string, nat) rest" where
  "stub_rest c call w =
     (if call_url call = ''https://t.auth0.com/api/v2/resource-servers/missing-id''
      then (Inl 404, w + 1)
      else (Inr (call_url call), w + 1))"

text \<open>A verb method that is down: every call fails with status 500.\<close>

definition failing_rest :: "(string \<times> bool, string, nat, string, nat) rest" where
  "failing_rest c call w = (Inl 500, w)"

section \<open>Properties\<close>

subsection \<open>Auxiliary facts\<close>

lemma init_fields:
  "init RestClient d token telemetry timeout pa rest_options = Inr self \<Longrightarrow>
   domain self = d \<and> protocol self = (case pa of None \<Rightarrow> ''https'' | Some q \<Rightarrow> q)"
  by (auto simp: init_def split: sum.splits)

lemma url_collection:
  "url' self None = protocol self @ ''://'' @ domain self @ ''/api/v2/resource-servers''"
  by (simp add: url'_def)

lemma url_item:
  "url' self (Some i) =
     protocol self @ ''://'' @ domain self @ ''/api/v2/resource-servers/'' @ i"
  by (simp add: url'_def)

lemma lower_str_bool: "lower (str_bool b) = (if b then ''true'' else ''false'')"
proof (cases b)
  case True
  have "lower ''True'' = ''true''" by code_simp
  with True show ?thesis by (simp add: str_bool_def)
next
  case False
  have "lower ''False'' = ''false''" by code_simp
  with False show ?thesis by (simp add: str_bool_def)
qed

text \<open>What each operation does on a recording client: one call, appended to the log.\<close>

lemma create_recording:
  "create (recording rest) self body (w, calls) =
     (case rest (client self)
             \<lparr>call_verb = POST, call_url = url' self None,
              call_params = None, call_data = Some body\<rparr> w of
        (res, w') \<Rightarrow>
          (res, self, w',
           calls @ [(client self,
                     \<lparr>call_verb = POST, call_url = url' self None,
                      call_params = None, call_data = Some body\<rparr>)]))"
  by (simp add: create_def recording_def split: prod.splits)

lemma get_all_recording:
  "get_all (recording rest) self page per_page include_totals (w, calls) =
     (case rest (client self)
             \<lparr>call_verb = GET, call_url = url' self None,
              call_params = Some [(''page'', py_int_opt page),
                                  (''per_page'', py_int_opt per_page),
                                  (''include_totals'',
                                   PyStr (if include_totals = Some True
                                          then ''true'' else ''false''))],
              call_data = None\<rparr> w of
        (res, w') \<Rightarrow>
          (res, self, w',
           calls @ [(client self,
                     \<lparr>call_verb = GET, call_url = url' self None,
                      call_params = Some [(''page'', py_int_opt page),
                                          (''per_page'', py_int_opt per_page),
                                          (''include_totals'',
                                           PyStr (if include_totals = Some True
                                                  then ''true'' else ''false''))],
                      call_data = None\<rparr>)]))"
  by (cases include_totals)
     (simp_all add: get_all_def recording_def lower_str_bool split: prod.splits)

lemma get_recording:
  "get (recording rest) self i (w, calls) =
     (case rest (client self)
             \<lparr>call_verb = GET, call_url = url' self (Some i),
              call_params = None, call_data = None\<rparr> w of
        (res, w') \<Rightarrow>
          (res, self, w',
           calls @ [(client self,
                     \<lparr>call_verb = GET, call_url = url' self (Some i),
                      call_params = None, call_data = None\<rparr>)]))"
  by (simp add: get_def recording_def split: prod.splits)

lemma delete_recording:
  "delete (recording rest) self i (w, calls) =
     (case rest (client self)
             \<lparr>call_verb = DELETE, call_url = url' self (Some i),
              call_params = None, call_data = None\<rparr> w of
        (res, w') \<Rightarrow>
          (res, self, w',
           calls @ [(client self,
                     \<lparr>call_verb = DELETE, call_url = url' self (Some i),
                      call_params = None, call_data = None\<rparr>)]))"
  by (simp add: delete_def recording_def split: prod.splits)

lemma update_recording:
  "update (recording rest) self i body (w, calls) =
     (case rest (client self)
             \<lparr>call_verb = PATCH, call_url = url' self (Some i),
              call_params = None, call_data = Some body\<rparr> w of
        (res, w') \<Rightarrow>
          (res, self, w',
           calls @ [(client self,
                     \<lparr>call_verb = PATCH, call_url = url' self (Some i),
                      call_params = None, call_data = Some body\<rparr>)]))"
  by (simp add: update_def recording_def split: prod.splits)

lemma sent_create:
  "sent (create (recording rest) self body (w, calls)) =
     map snd calls @ [\<lparr>call_verb = POST, call_url = url' self None,
                       call_params = None, call_data = Some body\<rparr>]"
  by (simp add: create_recording sent_def split: prod.splits)

lemma sent_get_all:
  "sent (get_all (recording rest) self page per_page include_totals (w, calls)) =
     map snd calls @
     [\<lparr>call_verb = GET, call_url = url' self None,
       call_params = Some [(''page'', py_int_opt page),
                           (''per_page'', py_int_opt per_page),
                           (''include_totals'',
                            PyStr (if include_totals = Some True
                                   then ''true'' else ''false''))],
       call_data = None\<rparr>]"
  by (simp add: get_all_recording sent_def split: prod.splits)

lemma sent_get:
  "sent (get (recording rest) self i (w, calls)) =
     map snd calls @ [\<lparr>call_verb = GET, call_url = url' self (Some i),
                       call_params = None, call_data = None\<rparr>]"
  by (simp add: get_recording sent_def split: prod.splits)

lemma sent_delete:
  "sent (delete (recording rest) self i (w, calls)) =
     map snd calls @ [\<lparr>call_verb = DELETE, call_url = url' self (Some i),
                       call_params = None, call_data = None\<rparr>]"
  by (simp add: delete_recording sent_def split: prod.splits)

lemma sent_update:
  "sent (update (recording rest) self i body (w, calls)) =
     map snd calls @ [\<lparr>call_verb = PATCH, call_url = url' self (Some i),
                       call_params = None, call_data = Some body\<rparr>]"
  by (simp add: update_recording sent_def split: prod.splits)

lemmas sent_simps = sent_create sent_get_all sent_get sent_delete sent_update

text \<open>The result of each operation is the result of its call.\<close>

lemma create_result:
  "fst (create rest self body w) =
     fst (rest (client self)
            \<lparr>call_verb = POST, call_url = url' self None,
             call_params = None, call_data = Some body\<rparr> w)"
  by (simp add: create_def split: prod.splits)

lemma get_all_result:
  "fst (get_all rest self page per_page include_totals w) =
     fst (rest (client self)
            \<lparr>call_verb = GET, call_url = url' self None,
             call_params = Some [(''page'', py_int_opt page),
                                 (''per_page'', py_int_opt per_page),
                                 (''include_totals'',
                                  PyStr (if include_totals = Some True
                                         then ''true'' else ''false''))],
             call_data = None\<rparr> w)"
  by (cases include_totals)
     (simp_all add: get_all_def lower_str_bool split: prod.splits)

lemma get_result:
  "fst (get rest self i w) =
     fst (rest (client self)
            \<lparr>call_verb = GET, call_url = url' self (Some i),
             call_params = None, call_data = None\<rparr> w)"
  by (simp add: get_def split: prod.splits)

lemma delete_result:
  "fst (delete rest self i w) =
     fst (rest (client self)
            \<lparr>call_verb = DELETE, call_url = url' self (Some i),
             call_params = None, call_data = None\<rparr> w)"
  by (simp add: delete_def split: prod.splits)

lemma update_result:
  "fst (update rest self i body w) =
     fst (rest (client self)
            \<lparr>call_verb = PATCH, call_url = url' self (Some i),
             call_params = None, call_data = Some body\<rparr> w)"
  by (simp add: update_def split: prod.splits)

lemmas result_simps = create_result get_all_result get_result delete_result update_result

text \<open>No operation assigns to a field of the instance.\<close>

lemma run_op_self: "fst (snd (run_op rest self x w)) = self"
  by (cases x)
     (simp_all add: create_def get_all_def get_def delete_def update_def split: prod.splits)

lemma run_ops_self: "fst (snd (run_ops rest self xs w)) = self"
proof (induction xs arbitrary: self w)
  case Nil
  show ?case by simp
next
  case (Cons x xs)
  obtain res self' w' where step: "run_op rest self x w = (res, self', w')"
    by (cases "run_op rest self x w") auto
  have same: "self' = self"
    using run_op_self [of rest self x w] step by simp
  obtain rs self'' w'' where rest_run: "run_ops rest self' xs w' = (rs, self'', w'')"
    by (cases "run_ops rest self' xs w'") auto
  have "self'' = self'"
    using Cons.IH [of self' w'] rest_run by simp
  with same step rest_run show ?case by simp
qed

text \<open>The call an operation sends does not depend on the client's behaviour or on the
  outside state.\<close>

lemma sent_run_op_indep:
  "sent (run_op (recording rest1) self x (w1, [])) =
   sent (run_op (recording rest2) self x (w2, []))"
  by (cases x) (simp_all add: sent_simps)


lemma run_step_frame:
  assumes "a < length (objects s)"
  shows "a < length (objects (run_step RestClient rest x s)) \<and>
         objects (run_step RestClient rest x s) ! a = objects s ! a"
proof (cases x)
  case (Construct d token telemetry timeout p rest_options)
  with assms show ?thesis
    by (simp add: nth_append split: sum.splits)
next
  case (Call b y)
  show ?thesis
  proof (cases "b < length (objects s)")
    case False
    with Call assms show ?thesis by simp
  next
    case True
    obtain res self' w' where r: "run_op rest (objects s ! b) y (world s) = (res, self', w')"
      by (cases "run_op rest (objects s ! b) y (world s)") auto
    have "self' = objects s ! b"
      using run_op_self [of rest "objects s ! b" y "world s"] r by simp
    with Call True r assms show ?thesis by simp
  qed
qed

lemma run_steps_frame:
  "a < length (objects s) \<Longrightarrow>
   a < length (objects (run_steps RestClient rest xs s)) \<and>
   objects (run_steps RestClient rest xs s) ! a = objects s ! a"
proof (induction xs arbitrary: s)
  case Nil
  then show ?case by simp
next
  case (Cons x xs)
  from run_step_frame [OF Cons.prems, of RestClient rest x]
  have len: "a < length (objects (run_step RestClient rest x s))"
    and same: "objects (run_step RestClient rest x s) ! a = objects s ! a"
    by simp_all
  from Cons.IH [OF len] same show ?case by simp
qed

subsection \<open>The claims\<close>

text \<open>
  C1. For an instance constructed with domain \<open>d\<close> and protocol \<open>p\<close> (\<^verbatim>\<open>https\<close> when
  the argument is left out), every operation sends exactly one request, and its URL is
  exactly \<open>p://d/api/v2/resource-servers\<close> for create and get_all, and that URL followed
  by \<open>/\<close> and the id for get, delete and update.
\<close>

theorem request_urls:
  assumes "init RestClient d token telemetry timeout pa rest_options = Inr self"
    and "p = (case pa of None \<Rightarrow> ''https'' | Some q \<Rightarrow> q)"
  shows
    "map call_url (sent (create (recording rest) self body (w, []))) =
       [p @ ''://'' @ d @ ''/api/v2/resource-servers''] \<and>
     map call_url (sent (get_all (recording rest) self page per_page include_totals (w, []))) =
       [p @ ''://'' @ d @ ''/api/v2/resource-servers''] \<and>
     map call_url (sent (get (recording rest) self i (w, []))) =
       [p @ ''://'' @ d @ ''/api/v2/resource-servers/'' @ i] \<and>
     map call_url (sent (delete (recording rest) self i (w, []))) =
       [p @ ''://'' @ d @ ''/api/v2/resource-servers/'' @ i] \<and>
     map call_url (sent (update (recording rest) self i body (w, []))) =
       [p @ ''://'' @ d @ ''/api/v2/resource-servers/'' @ i]"
proof -
  from init_fields [OF assms(1)] assms(2)
  have f: "domain self = d" "protocol self = p" by simp_all
  show ?thesis
    by (simp add: sent_simps url_collection url_item f)
qed

theorem request_urls_witness:
  "init stub_ctor ''t.auth0.com'' ''tok'' None None (Some ''http'') None =
     Inr \<lparr>domain = ''t.auth0.com'', protocol = ''http'', client = (''tok'', True)\<rparr> \<and>
   map call_url (sent (create (recording stub_rest)
       \<lparr>domain = ''t.auth0.com'', protocol = ''http'', client = (''tok'', True)\<rparr>
       ''body'' (0, []))) = [''http://t.auth0.com/api/v2/resource-servers''] \<and>
   map call_url (sent (delete (recording stub_rest)
       \<lparr>domain = ''t.auth0.com'', protocol = ''http'', client = (''tok'', True)\<rparr>
       ''abc'' (0, []))) = [''http://t.auth0.com/api/v2/resource-servers/abc'']"
proof -
  have h: "init stub_ctor ''t.auth0.com'' ''tok'' None None (Some ''http'') None =
     Inr \<lparr>domain = ''t.auth0.com'', protocol = ''http'', client = (''tok'', True)\<rparr>"
    by (simp add: init_def stub_ctor_def)
  have q: "''http'' = (case Some ''http'' of None \<Rightarrow> ''https'' | Some q \<Rightarrow> q)"
    by simp
  from request_urls [OF h q, where rest = stub_rest and body = "''body''" and w = 0
      and i = "''abc''"] h
  show ?thesis by simp
qed

text \<open>
  C2. get_all sends exactly the three query parameters \<open>page\<close>, \<open>per_page\<close> and
  \<open>include_totals\<close>, in this order: \<open>page\<close> and \<open>per_page\<close> as they were given
  (\<open>None\<close> when left out) and \<open>include_totals\<close> as the string \<open>true\<close> or \<open>false\<close>,
  never as a boolean. Without arguments it sends \<open>None\<close>, \<open>None\<close> and \<open>false\<close>; with
  page 2, per_page 10 and include_totals \<open>True\<close> it sends 2, 10 and \<open>true\<close>.
\<close>

theorem get_all_query_parameters:
  "map call_params
     (sent (get_all (recording rest) self page per_page include_totals (w, []))) =
     [Some [(''page'', case page of None \<Rightarrow> PyNone | Some n \<Rightarrow> PyInt n),
            (''per_page'', case per_page of None \<Rightarrow> PyNone | Some n \<Rightarrow> PyInt n),
            (''include_totals'',
             PyStr (if include_totals = Some True then ''true'' else ''false''))]] \<and>
   map (\<lambda>c. case call_params c of None \<Rightarrow> None | Some ps \<Rightarrow> map_of ps ''include_totals'')
     (sent (get_all (recording rest) self page per_page include_totals (w, []))) \<noteq>
     [Some (PyBool b)] \<and>
   map call_params (sent (get_all (recording rest) self None None None (w, []))) =
     [Some [(''page'', PyNone), (''per_page'', PyNone),
            (''include_totals'', PyStr ''false'')]] \<and>
   map call_params
     (sent (get_all (recording rest) self (Some 2) (Some 10) (Some True) (w, []))) =
     [Some [(''page'', PyInt 2), (''per_page'', PyInt 10),
            (''include_totals'', PyStr ''true'')]]"
  by (simp add: sent_get_all py_int_opt_def)

text \<open>
  C3. When the verb method raises an error on the request an operation makes, the
  operation raises this very error: it is the operation's result, the instance and the
  outside state are those the failed call left, and the request was made once (no
  retry, nothing caught or replaced).
\<close>

theorem rest_errors_propagate:
  assumes "sent (run_op (recording rest) self x (w, [])) = [call]"
    and "rest (client self) call w = (Inl e, w')"
  shows "run_op rest self x w = (Inl e, self, w') \<and>
         run_op (recording rest) self x (w, []) = (Inl e, self, w', [(client self, call)])"
proof (cases x)
  case (Create body)
  with assms(1) have "call = \<lparr>call_verb = POST, call_url = url' self None,
      call_params = None, call_data = Some body\<rparr>"
    by (simp add: sent_create)
  with assms(2) Create have plain: "run_op rest self x w = (Inl e, self, w')"
    and recorded: "run_op (recording rest) self x (w, []) =
      (Inl e, self, w', [(client self, call)])"
    by (simp_all add: create_def recording_def)
  then show ?thesis by (rule conjI)
next
  case (GetAll page per_page include_totals)
  with assms(1) have "call = \<lparr>call_verb = GET, call_url = url' self None,
      call_params = Some [(''page'', py_int_opt page), (''per_page'', py_int_opt per_page),
        (''include_totals'', PyStr (if include_totals = Some True then ''true'' else ''false''))],
      call_data = None\<rparr>"
    by (simp add: sent_get_all)
  with assms(2) GetAll have plain: "run_op rest self x w = (Inl e, self, w')"
    and recorded: "run_op (recording rest) self x (w, []) =
      (Inl e, self, w', [(client self, call)])"
    by (cases include_totals; simp add: get_all_def recording_def lower_str_bool)+
  then show ?thesis by (rule conjI)
next
  case (Get i)
  with assms(1) have "call = \<lparr>call_verb = GET, call_url = url' self (Some i),
      call_params = None, call_data = None\<rparr>"
    by (simp add: sent_get)
  with assms(2) Get have plain: "run_op rest self x w = (Inl e, self, w')"
    and recorded: "run_op (recording rest) self x (w, []) =
      (Inl e, self, w', [(client self, call)])"
    by (simp_all add: get_def recording_def)
  then show ?thesis by (rule conjI)
next
  case (Delete i)
  with assms(1) have "call = \<lparr>call_verb = DELETE, call_url = url' self (Some i),
      call_params = None, call_data = None\<rparr>"
    by (simp add: sent_delete)
  with assms(2) Delete have plain: "run_op rest self x w = (Inl e, self, w')"
    and recorded: "run_op (recording rest) self x (w, []) =
      (Inl e, self, w', [(client self, call)])"
    by (simp_all add: delete_def recording_def)
  then show ?thesis by (rule conjI)
next
  case (Update i body)
  with assms(1) have "call = \<lparr>call_verb = PATCH, call_url = url' self (Some i),
      call_params = None, call_data = Some body\<rparr>"
    by (simp add: sent_update)
  with assms(2) Update have plain: "run_op rest self x w = (Inl e, self, w')"
    and recorded: "run_op (recording rest) self x (w, []) =
      (Inl e, self, w', [(client self, call)])"
    by (simp_all add: update_def recording_def)
  then show ?thesis by (rule conjI)
qed


theorem rest_errors_propagate_witness:
  "sent (run_op (recording stub_rest)
      \<lparr>domain = ''t.auth0.com'', protocol = ''https'', client = (''tok'', True)\<rparr>
      (Get ''missing-id'') (0, [])) =
     [\<lparr>call_verb = GET,
       call_url = ''https://t.auth0.com/api/v2/resource-servers/missing-id'',
       call_params = None, call_data = None\<rparr>] \<and>
   stub_rest (''tok'', True)
     \<lparr>call_verb = GET,
      call_url = ''https://t.auth0.com/api/v2/resource-servers/missing-id'',
      call_params = None, call_data = None\<rparr> 0 = (Inl 404, 1) \<and>
   run_op stub_rest
     \<lparr>domain = ''t.auth0.com'', protocol = ''https'', client = (''tok'', True)\<rparr>
     (Get ''missing-id'') 0 =
     (Inl 404,
      \<lparr>domain = ''t.auth0.com'', protocol = ''https'', client = (''tok'', True)\<rparr>, 1)"
proof -
  let ?self = "\<lparr>domain = ''t.auth0.com'', protocol = ''https'', client = (''tok'', True)\<rparr>"
  let ?call = "\<lparr>call_verb = GET,
      call_url = ''https://t.auth0.com/api/v2/resource-servers/missing-id'',
      call_params = None, call_data = None :: string option\<rparr>"
  have h1: "sent (run_op (recording stub_rest) ?self (Get ''missing-id'') (0, [])) = [?call]"
    by (simp add: sent_get url_item)
  have h2: "stub_rest (client ?self) ?call 0 = (Inl 404, 1)"
    by (simp add: stub_rest_def)
  from rest_errors_propagate [OF h1 h2] h1 h2 show ?thesis by simp
qed


text \<open>
  C4. create makes one POST request to the collection URL (no id suffix), with the body
  it was given as the payload, unmodified, and no query parameters; its result is the
  result of that request.
\<close>

theorem create_posts_body:
  "sent (create (recording rest) self body (w, [])) =
     [\<lparr>call_verb = POST,
       call_url = protocol self @ ''://'' @ domain self @ ''/api/v2/resource-servers'',
       call_params = None, call_data = Some body\<rparr>] \<and>
   fst (create rest self body w) =
     fst (rest (client self)
            \<lparr>call_verb = POST,
             call_url = protocol self @ ''://'' @ domain self @ ''/api/v2/resource-servers'',
             call_params = None, call_data = Some body\<rparr> w)"
  by (simp add: sent_create create_result url_collection)

text \<open>
  C5. Each operation calls exactly one verb method, once: create POST, get_all GET,
  get GET, delete DELETE, update PATCH. update passes its body as the payload of the
  PATCH, and the result of every operation is the result of its one call.
\<close>

theorem one_verb_per_operation:
  "map call_verb (sent (create (recording rest) self body (w, []))) = [POST] \<and>
   map call_verb
     (sent (get_all (recording rest) self page per_page include_totals (w, []))) = [GET] \<and>
   map call_verb (sent (get (recording rest) self i (w, []))) = [GET] \<and>
   map call_verb (sent (delete (recording rest) self i (w, []))) = [DELETE] \<and>
   map call_verb (sent (update (recording rest) self i body (w, []))) = [PATCH] \<and>
   map call_data (sent (update (recording rest) self i body (w, []))) = [Some body] \<and>
   map (\<lambda>c. fst (rest (client self) c w)) (sent (run_op (recording rest) self x (w, []))) =
     [fst (run_op rest self x w)]"
proof -
  have "map (\<lambda>c. fst (rest (client self) c w))
      (sent (run_op (recording rest) self x (w, []))) = [fst (run_op rest self x w)]"
    by (cases x) (simp_all add: sent_simps result_simps)
  then show ?thesis
    by (simp add: sent_simps)
qed

text \<open>
  C6. Two instances constructed with the same arguments but for the protocol differ in
  the protocol field only, and for every operation the two requests differ in the scheme
  prefix of the URL only: each URL starts with its own protocol, and with that prefix
  removed the two requests (verb, rest of the URL with domain, path and id, query
  parameters, payload) are equal.
\<close>

theorem protocol_changes_scheme_only:
  assumes "init RestClient d token telemetry timeout (Some p) rest_options = Inr a"
    and "init RestClient d token telemetry timeout (Some q) rest_options = Inr b"
  shows "b = a\<lparr>protocol := q\<rparr> \<and>
     map (take (length p) \<circ> call_url) (sent (run_op (recording rest) a x (w, []))) = [p] \<and>
     map (take (length q) \<circ> call_url) (sent (run_op (recording rest) b x (w, []))) = [q] \<and>
     map (\<lambda>c. c\<lparr>call_url := drop (length p) (call_url c)\<rparr>)
       (sent (run_op (recording rest) a x (w, []))) =
     map (\<lambda>c. c\<lparr>call_url := drop (length q) (call_url c)\<rparr>)
       (sent (run_op (recording rest) b x (w, [])))"
proof -
  from assms have b: "b = a\<lparr>protocol := q\<rparr>"
    by (auto simp: init_def split: sum.splits)
  from init_fields [OF assms(1)] have pa: "protocol a = p" by simp
  from b have pb: "protocol b = q" and db: "domain b = domain a"
    by simp_all
  have "map (take (length p) \<circ> call_url) (sent (run_op (recording rest) a x (w, []))) = [p] \<and>
     map (take (length q) \<circ> call_url) (sent (run_op (recording rest) b x (w, []))) = [q] \<and>
     map (\<lambda>c. c\<lparr>call_url := drop (length p) (call_url c)\<rparr>)
       (sent (run_op (recording rest) a x (w, []))) =
     map (\<lambda>c. c\<lparr>call_url := drop (length q) (call_url c)\<rparr>)
       (sent (run_op (recording rest) b x (w, [])))"
    by (cases x) (simp_all add: sent_simps url_collection url_item pa pb db)
  with b show ?thesis by simp
qed

theorem protocol_changes_scheme_only_witness:
  "init stub_ctor ''t.auth0.com'' ''tok'' None None (Some ''https'') None =
     Inr \<lparr>domain = ''t.auth0.com'', protocol = ''https'', client = (''tok'', True)\<rparr> \<and>
   init stub_ctor ''t.auth0.com'' ''tok'' None None (Some ''http'') None =
     Inr \<lparr>domain = ''t.auth0.com'', protocol = ''http'', client = (''tok'', True)\<rparr> \<and>
   sent (run_op (recording stub_rest)
      \<lparr>domain = ''t.auth0.com'', protocol = ''https'', client = (''tok'', True)\<rparr>
      (Update ''abc'' ''body'') (0, [])) =
     [\<lparr>call_verb = PATCH, call_url = ''https://t.auth0.com/api/v2/resource-servers/abc'',
       call_params = None, call_data = Some ''body''\<rparr>] \<and>
   sent (run_op (recording stub_rest)
      \<lparr>domain = ''t.auth0.com'', protocol = ''http'', client = (''tok'', True)\<rparr>
      (Update ''abc'' ''body'') (0, [])) =
     [\<lparr>call_verb = PATCH, call_url = ''http://t.auth0.com/api/v2/resource-servers/abc'',
       call_params = None, call_data = Some ''body''\<rparr>] \<and>
   map (\<lambda>c. c\<lparr>call_url := drop (length ''https'') (call_url c)\<rparr>)
     (sent (run_op (recording stub_rest)
        \<lparr>domain = ''t.auth0.com'', protocol = ''https'', client = (''tok'', True)\<rparr>
        (Update ''abc'' ''body'') (0, []))) =
   map (\<lambda>c. c\<lparr>call_url := drop (length ''http'') (call_url c)\<rparr>)
     (sent (run_op (recording stub_rest)
        \<lparr>domain = ''t.auth0.com'', protocol = ''http'', client = (''tok'', True)\<rparr>
        (Update ''abc'' ''body'') (0, [])))"
proof -
  have ha: "init stub_ctor ''t.auth0.com'' ''tok'' None None (Some ''https'') None =
     Inr \<lparr>domain = ''t.auth0.com'', protocol = ''https'', client = (''tok'', True)\<rparr>"
    by (simp add: init_def stub_ctor_def)
  have hb: "init stub_ctor ''t.auth0.com'' ''tok'' None None (Some ''http'') None =
     Inr \<lparr>domain = ''t.auth0.com'', protocol = ''http'', client = (''tok'', True)\<rparr>"
    by (simp add: init_def stub_ctor_def)
  have sa: "sent (run_op (recording stub_rest)
      \<lparr>domain = ''t.auth0.com'', protocol = ''https'', client = (''tok'', True)\<rparr>
      (Update ''abc'' ''body'') (0, [])) =
     [\<lparr>call_verb = PATCH, call_url = ''https://t.auth0.com/api/v2/resource-servers/abc'',
       call_params = None, call_data = Some ''body''\<rparr>]"
    by (simp add: sent_update url_item)
  have sb: "sent (run_op (recording stub_rest)
      \<lparr>domain = ''t.auth0.com'', protocol = ''http'', client = (''tok'', True)\<rparr>
      (Update ''abc'' ''body'') (0, [])) =
     [\<lparr>call_verb = PATCH, call_url = ''http://t.auth0.com/api/v2/resource-servers/abc'',
       call_params = None, call_data = Some ''body''\<rparr>]"
    by (simp add: sent_update url_item)
  from protocol_changes_scheme_only [OF ha hb, where rest = stub_rest
      and x = "Update ''abc'' ''body''" and w = 0]
  have "map (\<lambda>c. c\<lparr>call_url := drop (length ''https'') (call_url c)\<rparr>)
     (sent (run_op (recording stub_rest)
        \<lparr>domain = ''t.auth0.com'', protocol = ''https'', client = (''tok'', True)\<rparr>
        (Update ''abc'' ''body'') (0, []))) =
   map (\<lambda>c. c\<lparr>call_url := drop (length ''http'') (call_url c)\<rparr>)
     (sent (run_op (recording stub_rest)
        \<lparr>domain = ''t.auth0.com'', protocol = ''http'', client = (''tok'', True)\<rparr>
        (Update ''abc'' ''body'') (0, [])))"
    by blast
  with ha hb sa sb show ?thesis by blast
qed


text \<open>
  C7. In a program with several instances, the URL an instance builds is made of its
  own protocol and domain fields and of nothing else, and whatever is constructed or
  called in between, on this or on any other instance, it builds the same URLs and sends
  its requests to the same URLs as before.
\<close>

theorem instances_do_not_interfere:
  assumes "a < length (objects s)"
  shows "url' (objects (run_steps RestClient rest steps s) ! a) i =
           protocol (objects s ! a) @ ''://'' @ domain (objects s ! a) @
           ''/api/v2/resource-servers'' @ (case i of None \<Rightarrow> [] | Some j \<Rightarrow> ''/'' @ j) \<and>
         map call_url
           (sent (run_op (recording rest1)
                    (objects (run_steps RestClient rest steps s) ! a) x (w, []))) =
         map call_url (sent (run_op (recording rest1) (objects s ! a) x (w, [])))"
proof -
  from run_steps_frame [OF assms, of RestClient rest steps]
  have same: "objects (run_steps RestClient rest steps s) ! a = objects s ! a"
    by simp
  show ?thesis
    unfolding same by (cases i) (simp_all add: url'_def)
qed

theorem instances_do_not_interfere_witness:
  "(0::nat) < length (objects
      \<lparr>objects = [\<lparr>domain = ''a.auth0.com'', protocol = ''https'', client = (''tok'', True)\<rparr>],
       world = (0::nat)\<rparr>) \<and>
   objects (run_steps stub_ctor stub_rest
      [Construct ''b.auth0.com'' ''tok2'' None None (Some ''http'') None,
       Call 1 (Get ''x''), Call 0 (Delete ''y''), Call 1 (Create ''body'')]
      \<lparr>objects = [\<lparr>domain = ''a.auth0.com'', protocol = ''https'', client = (''tok'', True)\<rparr>],
       world = 0\<rparr>) =
     [\<lparr>domain = ''a.auth0.com'', protocol = ''https'', client = (''tok'', True)\<rparr>,
      \<lparr>domain = ''b.auth0.com'', protocol = ''http'', client = (''tok2'', True)\<rparr>] \<and>
   url' (objects (run_steps stub_ctor stub_rest
      [Construct ''b.auth0.com'' ''tok2'' None None (Some ''http'') None,
       Call 1 (Get ''x''), Call 0 (Delete ''y''), Call 1 (Create ''body'')]
      \<lparr>objects = [\<lparr>domain = ''a.auth0.com'', protocol = ''https'', client = (''tok'', True)\<rparr>],
       world = 0\<rparr>) ! 0) (Some ''r1'') =
     ''https://a.auth0.com/api/v2/resource-servers/r1''"
proof -
  let ?s = "\<lparr>objects =
      [\<lparr>domain = ''a.auth0.com'', protocol = ''https'', client = (''tok'', True)\<rparr>],
      world = (0::nat)\<rparr>"
  let ?steps = "[Construct ''b.auth0.com'' ''tok2'' None None (Some ''http'') None,
       Call 1 (Get ''x''), Call 0 (Delete ''y''), Call 1 (Create ''body'')]
       :: (unit, string) step list"
  have h: "(0::nat) < length (objects ?s)" by simp
  have run: "objects (run_steps stub_ctor stub_rest ?steps ?s) =
     [\<lparr>domain = ''a.auth0.com'', protocol = ''https'', client = (''tok'', True)\<rparr>,
      \<lparr>domain = ''b.auth0.com'', protocol = ''http'', client = (''tok2'', True)\<rparr>]"
    by (simp add: init_def stub_ctor_def stub_rest_def get_def delete_def create_def url'_def)
  from instances_do_not_interfere [OF h, where RestClient = stub_ctor and rest = stub_rest
      and steps = ?steps and i = "Some ''r1''"]
  have built: "url' (objects (run_steps stub_ctor stub_rest ?steps ?s) ! 0) (Some ''r1'') =
     protocol (objects ?s ! 0) @ ''://'' @ domain (objects ?s ! 0) @
     ''/api/v2/resource-servers'' @ (case Some ''r1'' of None \<Rightarrow> [] | Some j \<Rightarrow> ''/'' @ j)"
    by (rule conjunct1)
  have "protocol (objects ?s ! 0) @ ''://'' @ domain (objects ?s ! 0) @
     ''/api/v2/resource-servers'' @ (case Some ''r1'' of None \<Rightarrow> [] | Some j \<Rightarrow> ''/'' @ j) =
     ''https://a.auth0.com/api/v2/resource-servers/r1''"
    by simp
  with built
  have "url' (objects (run_steps stub_ctor stub_rest ?steps ?s) ! 0) (Some ''r1'') =
     ''https://a.auth0.com/api/v2/resource-servers/r1''"
    by (rule trans)
  with h run show ?thesis by blast
qed

text \<open>
  C8. No operation changes a field of the instance: after any sequence of calls of the
  five operations, failed or not, the instance is the one the constructor returned, with
  the domain and the protocol it was given and the client made at construction.
\<close>

theorem operations_leave_instance_unchanged:
  assumes "init RestClient d token telemetry timeout pa rest_options = Inr self"
  shows "fst (snd (run_ops rest self xs w)) = self \<and>
         domain (fst (snd (run_ops rest self xs w))) = d \<and>
         protocol (fst (snd (run_ops rest self xs w))) =
           (case pa of None \<Rightarrow> ''https'' | Some q \<Rightarrow> q) \<and>
         init RestClient d token telemetry timeout pa rest_options =
           Inr (fst (snd (run_ops rest self xs w)))"
  using assms init_fields [OF assms] by (simp add: run_ops_self)

theorem operations_leave_instance_unchanged_witness:
  "init stub_ctor ''t.auth0.com'' ''tok'' None None None None =
     Inr \<lparr>domain = ''t.auth0.com'', protocol = ''https'', client = (''tok'', True)\<rparr> \<and>
   run_ops stub_rest
     \<lparr>domain = ''t.auth0.com'', protocol = ''https'', client = (''tok'', True)\<rparr>
     [Create ''body'', Get ''missing-id'', Delete ''abc''] 0 =
     ([Inr ''https://t.auth0.com/api/v2/resource-servers'', Inl 404,
       Inr ''https://t.auth0.com/api/v2/resource-servers/abc''],
      \<lparr>domain = ''t.auth0.com'', protocol = ''https'', client = (''tok'', True)\<rparr>, 3) \<and>
   fst (snd (run_ops stub_rest
     \<lparr>domain = ''t.auth0.com'', protocol = ''https'', client = (''tok'', True)\<rparr>
     [Create ''body'', Get ''missing-id'', Delete ''abc''] 0)) =
     \<lparr>domain = ''t.auth0.com'', protocol = ''https'', client = (''tok'', True)\<rparr>"
proof -
  let ?self = "\<lparr>domain = ''t.auth0.com'', protocol = ''https'', client = (''tok'', True)\<rparr>"
  have h: "init stub_ctor ''t.auth0.com'' ''tok'' None None None None = Inr ?self"
    by (simp add: init_def stub_ctor_def)
  have run: "run_ops stub_rest ?self [Create ''body'', Get ''missing-id'', Delete ''abc''] 0 =
     ([Inr ''https://t.auth0.com/api/v2/resource-servers'', Inl 404,
       Inr ''https://t.auth0.com/api/v2/resource-servers/abc''], ?self, 3)"
    by (simp add: stub_rest_def create_def get_def delete_def url'_def)
  from operations_leave_instance_unchanged [OF h, where rest = stub_rest
      and xs = "[Create ''body'', Get ''missing-id'', Delete ''abc'']" and w = 0]
  have "fst (snd (run_ops stub_rest ?self
      [Create ''body'', Get ''missing-id'', Delete ''abc''] 0)) = ?self"
    by blast
  with h run show ?thesis by blast
qed

text \<open>
  C9. The id of get, delete and update is appended to the collection URL as it is, after
  one \<open>/\<close>, without validation or encoding: the empty id gives the collection URL with
  a trailing \<open>/\<close>, and every \<open>/\<close> in the id is a \<open>/\<close> in the URL, so that the URL has
  as many separators more than the collection URL as the id has, plus one.
\<close>

theorem id_is_appended_verbatim:
  "url' self (Some i) = url' self None @ ''/'' @ i \<and>
   url' self (Some []) = url' self None @ ''/'' \<and>
   count_list (url' self (Some i)) CHR ''/'' =
     count_list (url' self None) CHR ''/'' + 1 + count_list i CHR ''/'' \<and>
   map call_url (sent (get (recording rest) self i (w, []))) = [url' self None @ ''/'' @ i] \<and>
   map call_url (sent (delete (recording rest) self i (w, []))) =
     [url' self None @ ''/'' @ i] \<and>
   map call_url (sent (update (recording rest) self i body (w, []))) =
     [url' self None @ ''/'' @ i] \<and>
   url' \<lparr>domain = ''t.auth0.com'', protocol = ''https'', client = c\<rparr> (Some ''a/b?c'') =
     ''https://t.auth0.com/api/v2/resource-servers/a/b?c''"
proof -
  have item: "\<And>j. url' self (Some j) = url' self None @ ''/'' @ j"
    by (simp add: url'_def)
  have "url' \<lparr>domain = ''t.auth0.com'', protocol = ''https'', client = c\<rparr> (Some ''a/b?c'') =
     ''https://t.auth0.com/api/v2/resource-servers/a/b?c''"
    by (simp add: url'_def)
  then show ?thesis
    by (simp add: sent_simps item)
qed

text \<open>
  C10. The request of an operation is a function of the constructor's arguments and of
  the operation's arguments alone: two instances constructed with the same arguments
  send the same request (verb, URL, query parameters, payload) for the same call,
  whatever the REST client does, whatever the outside state is and whatever calls were
  made on either instance before.
\<close>

theorem requests_are_deterministic:
  assumes "init RestClient d token telemetry timeout pa rest_options = Inr a"
    and "init RestClient d token telemetry timeout pa rest_options = Inr b"
  shows "sent (run_op (recording rest1) (fst (snd (run_ops rest1 a xs w1))) x (v1, [])) =
         sent (run_op (recording rest2) (fst (snd (run_ops rest2 b ys w2))) x (v2, []))"
proof -
  from assms have "a = b" by simp
  then show ?thesis
    by (simp add: run_ops_self sent_run_op_indep [of rest1 b x v1 rest2 v2])
qed

theorem requests_are_deterministic_witness:
  "init stub_ctor ''t.auth0.com'' ''tok'' None None None None =
     Inr \<lparr>domain = ''t.auth0.com'', protocol = ''https'', client = (''tok'', True)\<rparr> \<and>
   sent (run_op (recording stub_rest)
     (fst (snd (run_ops stub_rest
        \<lparr>domain = ''t.auth0.com'', protocol = ''https'', client = (''tok'', True)\<rparr>
        [Get ''missing-id'', Create ''body''] 0)))
     (GetAll (Some 2) (Some 10) (Some True)) (2, [])) =
   sent (run_op (recording failing_rest)
     (fst (snd (run_ops failing_rest
        \<lparr>domain = ''t.auth0.com'', protocol = ''https'', client = (''tok'', True)\<rparr>
        [] 7)))
     (GetAll (Some 2) (Some 10) (Some True)) (7, []))"
proof -
  have h: "init stub_ctor ''t.auth0.com'' ''tok'' None None None None =
     Inr \<lparr>domain = ''t.auth0.com'', protocol = ''https'', client = (''tok'', True)\<rparr>"
    by (simp add: init_def stub_ctor_def)
  from requests_are_deterministic [OF h h, where ?rest1.0 = stub_rest
      and xs = "[Get ''missing-id'', Create ''body'']" and ?w1.0 = 0 and ?v1.0 = 2
      and ?rest2.0 = failing_rest and ys = "[]" and ?w2.0 = 7
      and ?v2.0 = 7 and x = "GetAll (Some 2) (Some 10) (Some True)"] h
  show ?thesis by blast
qed

end
